theory Spec2Isabelle
  imports Main
begin

section \<open>Data model of \<^verbatim>\<open>store-models.ts\<close>\<close>

text \<open>
  Values stored in a source's \<^verbatim>\<open>setup\<close> object. The TypeScript types
  \<^verbatim>\<open>SourceSetupOpenAI\<close> and \<^verbatim>\<open>SourceSetupLocalAI\<close> are imported from other
  modules; the store treats the object as opaque, so a setup is modelled as a JavaScript
  object: a finite map from property names to values, where a value may itself be an
  object.
\<close>

datatype jsval =
    JUndefined
  | JNull
  | JBool bool
  | JNum int
  | JStr string
  | JObj "string \<Rightarrow> jsval option"

type_synonym jsobj = "string \<Rightarrow> jsval option"

text \<open>
  \<^verbatim>\<open>interface DLLM\<close>. The fields \<^verbatim>\<open>_sourceId\<close> and \<^verbatim>\<open>_sourceModelId\<close> are written
  \<open>sourceId_llm\<close> and \<open>sourceModelId_llm\<close> (an identifier cannot start or end with an underscore);
  optional fields are options.
\<close>

record DLLM =
  uid :: string
  sourceId_llm :: string
  sourceModelId_llm :: string
  label :: string
  contextWindowSize :: int
  canStream :: bool
  canChat :: bool
  description :: "string option"
  tradeoff :: "string option"
  created :: "int option"

text \<open>
  \<^verbatim>\<open>interface DModelSource\<close>. Its fields \<^verbatim>\<open>id\<close>, \<^verbatim>\<open>label\<close> and \<^verbatim>\<open>setup\<close> carry
  the suffix \<open>_source\<close>. \<^verbatim>\<open>ModelVendorId\<close> is a string type of the vendors registry.
\<close>

record DModelSource =
  id_source :: string
  label_source :: string
  vendorId :: string
  setup_source :: "jsobj option"

text \<open>The data part of \<^verbatim>\<open>interface ModelsStore\<close>.\<close>

record ModelsStore =
  llms :: "DLLM list"
  sources :: "DModelSource list"

text \<open>
  The object an updater hands to the store's \<^verbatim>\<open>set\<close>: any subset of the state's keys.
\<close>

record ModelsStore_partial =
  llms_new :: "DLLM list option"
  sources_new :: "DModelSource list option"

text \<open>
  \<^verbatim>\<open>set(state => partial)\<close> of the store library: the updater is applied to the
  current state and the keys it returns replace the state's, in one step; the other
  keys stay.
\<close>

definition set_store :: "(ModelsStore \<Rightarrow> ModelsStore_partial) \<Rightarrow> ModelsStore \<Rightarrow> ModelsStore" where
  "set_store f state =
     (let p = f state in
      \<lparr> llms = (case llms_new p of None \<Rightarrow> llms state | Some l \<Rightarrow> l),
        sources = (case sources_new p of None \<Rightarrow> sources state | Some l \<Rightarrow> l) \<rparr>)"

text \<open>The initial state: \<^verbatim>\<open>llms: []\<close>, \<^verbatim>\<open>sources: []\<close>.\<close>

definition initial_store :: ModelsStore where
  "initial_store = \<lparr> llms = [], sources = [] \<rparr>"

section \<open>\<^verbatim>\<open>findUniqueSourceId\<close>\<close>

text \<open>
  The template literal \<^verbatim>\<open>`${vendorId}-${count}`\<close> renders the counter in decimal.
\<close>

definition digit_char :: "nat \<Rightarrow> char" where
  "digit_char d = char_of (48 + d)"

fun string_of_nat :: "nat \<Rightarrow> string" where
  "string_of_nat n =
     (if n < 10 then [digit_char n]
      else string_of_nat (n div 10) @ [digit_char (n mod 10)])"

declare string_of_nat.simps [simp del]

text \<open>
  The \<^verbatim>\<open>while\<close> loop, on its two variables \<^verbatim>\<open>id\<close> and \<^verbatim>\<open>count\<close>. The condition
  \<^verbatim>\<open>otherSources.find(source => source.id === id)\<close> is truthy exactly when
  \<^verbatim>\<open>find\<close> returns an element.
\<close>

function findUniqueSourceId_loop ::
  "string \<Rightarrow> DModelSource list \<Rightarrow> string \<Rightarrow> nat \<Rightarrow> string \<times> nat" where
  "findUniqueSourceId_loop vendor otherSources i count =
     (if find (\<lambda>source. id_source source = i) otherSources \<noteq> None
      then findUniqueSourceId_loop vendor otherSources
             (vendor @ ''-'' @ string_of_nat (count + 1)) (count + 1)
      else (i, count))"
  by pat_completeness auto

definition findUniqueSourceId :: "string \<Rightarrow> DModelSource list \<Rightarrow> string \<times> nat" where
  "findUniqueSourceId vendor otherSources = findUniqueSourceId_loop vendor otherSources vendor 0"

text \<open>
  The candidates the loop tries: \<^verbatim>\<open>vendorId\<close>, \<^verbatim>\<open>vendorId-1\<close>, \<^verbatim>\<open>vendorId-2\<close>, ...
\<close>

definition candidate :: "string \<Rightarrow> nat \<Rightarrow> string" where
  "candidate vendor k = (if k = 0 then vendor else vendor @ ''-'' @ string_of_nat k)"

section \<open>The store's operations\<close>

definition addLLMs :: "DLLM list \<Rightarrow> ModelsStore \<Rightarrow> ModelsStore" where
  "addLLMs models = set_store (\<lambda>state.
     \<lparr> llms_new = Some (filter (\<lambda>model. find (\<lambda>m. uid m = uid model) models = None) (llms state)
                         @ models),
       sources_new = None \<rparr>)"

definition removeLLM :: "string \<Rightarrow> ModelsStore \<Rightarrow> ModelsStore" where
  "removeLLM u = set_store (\<lambda>state.
     \<lparr> llms_new = Some (filter (\<lambda>model. uid model \<noteq> u) (llms state)),
       sources_new = None \<rparr>)"

definition addSource :: "DModelSource \<Rightarrow> ModelsStore \<Rightarrow> ModelsStore" where
  "addSource source = set_store (\<lambda>state.
     \<lparr> llms_new = None,
       sources_new = Some (sources state @ [source]) \<rparr>)"

definition removeSource :: "string \<Rightarrow> ModelsStore \<Rightarrow> ModelsStore" where
  "removeSource sourceId = set_store (\<lambda>state.
     \<lparr> llms_new = Some (filter (\<lambda>model. sourceId_llm model \<noteq> sourceId) (llms state)),
       sources_new = Some (filter (\<lambda>source. id_source source \<noteq> sourceId) (sources state)) \<rparr>)"

text \<open>
  \<^verbatim>\<open>{ ...source.setup, ...setup }\<close>: spreading an undefined \<^verbatim>\<open>source.setup\<close> adds
  nothing; then the properties of the argument are written over the copy.
\<close>

definition spread_setup :: "jsobj option \<Rightarrow> jsobj \<Rightarrow> jsobj" where
  "spread_setup old partialSetup =
     (case old of None \<Rightarrow> Map.empty | Some obj \<Rightarrow> obj) ++ partialSetup"

definition updateSourceSetup :: "string \<Rightarrow> jsobj \<Rightarrow> ModelsStore \<Rightarrow> ModelsStore" where
  "updateSourceSetup sourceId partialSetup = set_store (\<lambda>state.
     \<lparr> llms_new = None,
       sources_new = Some (map (\<lambda>source.
          if id_source source = sourceId
          then source\<lparr> setup_source := Some (spread_setup (setup_source source) partialSetup) \<rparr>
          else source) (sources state)) \<rparr>)"

text \<open>
  \<^verbatim>\<open>useJoinedLLMs\<close>: the element type of its result, and the join itself as a function
  of the state the hook reads. \<^verbatim>\<open>modelSource?.label ?? 'Unknown'\<close> and
  \<^verbatim>\<open>modelSource?.vendorId ?? null\<close> take the fallback when \<^verbatim>\<open>find\<close> returned
  \<^verbatim>\<open>undefined\<close>; \<^verbatim>\<open>null\<close> is \<open>None\<close>.
\<close>

record JoinedLLM =
  model :: DLLM
  sourceLabel :: string
  vendorId_joined :: "string option"

definition useJoinedLLMs :: "ModelsStore \<Rightarrow> JoinedLLM list" where
  "useJoinedLLMs state = map (\<lambda>m.
      let modelSource = find (\<lambda>source. id_source source = sourceId_llm m) (sources state) in
      \<lparr> model = m,
        sourceLabel = (case modelSource of None \<Rightarrow> ''Unknown'' | Some s \<Rightarrow> label_source s),
        vendorId_joined = (case modelSource of None \<Rightarrow> None | Some s \<Rightarrow> Some (vendorId s)) \<rparr>)
    (llms state)"

text \<open>Sequences of calls on the store, from the initial state.\<close>

datatype store_call =
    AddLLMs "DLLM list"
  | RemoveLLM string
  | AddSource DModelSource
  | RemoveSource string
  | UpdateSourceSetup string jsobj

fun apply_call :: "store_call \<Rightarrow> ModelsStore \<Rightarrow> ModelsStore" where
  "apply_call (AddLLMs models) = addLLMs models"
| "apply_call (RemoveLLM u) = removeLLM u"
| "apply_call (AddSource source) = addSource source"
| "apply_call (RemoveSource sourceId) = removeSource sourceId"
| "apply_call (UpdateSourceSetup sourceId partialSetup) = updateSourceSetup sourceId partialSetup"

definition run_calls :: "store_call list \<Rightarrow> ModelsStore" where
  "run_calls calls = fold apply_call calls initial_store"

section \<open>The persona catalog\<close>

text \<open>
  \<^verbatim>\<open>type SystemPurposeId\<close>, a union of string literals, with the string each
  identifier stands for.
\<close>

datatype SystemPurposeId =
  Catalyst | Custom | Designer | Developer | DeveloperPreview | Executive | Generic | Scientist

fun purpose_key :: "SystemPurposeId \<Rightarrow> string" where
  "purpose_key Catalyst = ''Catalyst''"
| "purpose_key Custom = ''Custom''"
| "purpose_key Designer = ''Designer''"
| "purpose_key Developer = ''Developer''"
| "purpose_key DeveloperPreview = ''DeveloperPreview''"
| "purpose_key Executive = ''Executive''"
| "purpose_key Generic = ''Generic''"
| "purpose_key Scientist = ''Scientist''"

definition defaultSystemPurposeId :: SystemPurposeId where
  "defaultSystemPurposeId = Generic"

text \<open>
  \<^verbatim>\<open>SystemPurposeData\<close>: the title of each entry is kept; descriptions, prompt
  texts, symbols, examples and voices are payload no operation inspects.
\<close>

record SystemPurposeData =
  title :: string

text \<open>
  The object literal \<^verbatim>\<open>SystemPurposes\<close>, property by property in the order of the
  source; a property read \<^verbatim>\<open>SystemPurposes[id]\<close> is \<open>map_of\<close> at the identifier's
  string and \<^verbatim>\<open>undefined\<close> is \<open>None\<close>.
\<close>

definition SystemPurposes :: "(string \<times> SystemPurposeData) list" where
  "SystemPurposes =
     [ (''DeveloperPreview'', \<lparr> title = ''Developer'' \<rparr>),
       (''Developer'', \<lparr> title = ''Dev'' \<rparr>),
       (''Scientist'', \<lparr> title = ''Scientist'' \<rparr>),
       (''Catalyst'', \<lparr> title = ''Catalyst'' \<rparr>),
       (''Executive'', \<lparr> title = ''Executive'' \<rparr>),
       (''Artist'', \<lparr> title = ''Artist'' \<rparr>),
       (''Generic'', \<lparr> title = ''Default'' \<rparr>),
       (''Custom'', \<lparr> title = ''Custom'' \<rparr>) ]"

definition lookup_purpose :: "SystemPurposeId \<Rightarrow> SystemPurposeData option" where
  "lookup_purpose p = map_of SystemPurposes (purpose_key p)"

section \<open>Sample records\<close>

text \<open>Concrete records for the worked examples: every field is given a value.\<close>

definition sample_llm :: "string \<Rightarrow> string \<Rightarrow> string \<Rightarrow> DLLM" where
  "sample_llm u sourceId l =
     \<lparr> uid = u, sourceId_llm = sourceId, sourceModelId_llm = u, label = l,
       contextWindowSize = 4096, canStream = True, canChat = True,
       description = None, tradeoff = None, created = None \<rparr>"

definition sample_source :: "string \<Rightarrow> string \<Rightarrow> DModelSource" where
  "sample_source i l =
     \<lparr> id_source = i, label_source = l, vendorId = ''openai'', setup_source = None \<rparr>"

section \<open>Decimal rendering and termination of the search\<close>

lemma digit_char_inj: "a < 10 \<Longrightarrow> b < 10 \<Longrightarrow> digit_char a = digit_char b \<Longrightarrow> a = b"
  by (simp add: digit_char_def char_of_eq_iff take_bit_nat_eq_self)

lemma string_of_nat_length: "0 < length (string_of_nat n)"
  by (subst string_of_nat.simps) simp

lemma string_of_nat_inj: "string_of_nat n = string_of_nat m \<Longrightarrow> n = m"
proof (induction n arbitrary: m rule: string_of_nat.induct)
  case (1 n)
  show ?case
  proof (cases "n < 10")
    case True
    show ?thesis
    proof (cases "m < 10")
      case mlt: True
      from "1.prems" True mlt have "digit_char n = digit_char m"
        by (simp add: string_of_nat.simps[of n] string_of_nat.simps[of m])
      with True mlt show ?thesis by (rule digit_char_inj)
    next
      case False
      from "1.prems" True False have "length (string_of_nat (m div 10)) = 0"
        by (simp add: string_of_nat.simps[of n] string_of_nat.simps[of m])
      with string_of_nat_length[of "m div 10"] show ?thesis by simp
    qed
  next
    case False
    show ?thesis
    proof (cases "m < 10")
      case True
      from "1.prems" True False have "length (string_of_nat (n div 10)) = 0"
        by (simp add: string_of_nat.simps[of n] string_of_nat.simps[of m])
      with string_of_nat_length[of "n div 10"] show ?thesis by simp
    next
      case mge: False
      from "1.prems" False mge
      have eq: "string_of_nat (n div 10) = string_of_nat (m div 10)"
        and d: "digit_char (n mod 10) = digit_char (m mod 10)"
        by (simp_all add: string_of_nat.simps[of n] string_of_nat.simps[of m])
      from "1.IH"[OF False eq] have "n div 10 = m div 10" .
      moreover from d have "n mod 10 = m mod 10"
        by (intro digit_char_inj) simp_all
      ultimately show ?thesis by (metis div_mult_mod_eq)
    qed
  qed
qed

lemma candidate_inj: "inj (candidate vendor)"
proof (rule injI)
  fix k j
  assume eq: "candidate vendor k = candidate vendor j"
  show "k = j"
  proof (cases "k = 0")
    case True
    show ?thesis
    proof (cases "j = 0")
      case True
      with \<open>k = 0\<close> show ?thesis by simp
    next
      case False
      with eq True have "length vendor = length (vendor @ ''-'' @ string_of_nat j)"
        by (simp add: candidate_def)
      then show ?thesis by simp
    qed
  next
    case False
    show ?thesis
    proof (cases "j = 0")
      case True
      with eq False have "length (vendor @ ''-'' @ string_of_nat k) = length vendor"
        by (simp add: candidate_def)
      then show ?thesis by simp
    next
      case jpos: False
      with eq False have "string_of_nat k = string_of_nat j"
        by (simp add: candidate_def)
      then show ?thesis by (rule string_of_nat_inj)
    qed
  qed
qed

lemma colliding_finite: "finite S \<Longrightarrow> finite {k. candidate vendor k \<in> S}"
  using finite_vimageI[OF _ candidate_inj, of S vendor] by (simp add: vimage_def)

lemma colliding_step:
  assumes "finite S"
  shows "card {k. c < k \<and> candidate vendor k \<in> S} =
         card {k. Suc c < k \<and> candidate vendor k \<in> S} + (if candidate vendor (Suc c) \<in> S then 1 else 0)"
proof -
  let ?B = "{k. Suc c < k \<and> candidate vendor k \<in> S}"
  have fin: "finite ?B"
    by (rule finite_subset[OF _ colliding_finite[OF assms, of vendor]]) auto
  have notin: "Suc c \<notin> ?B" by simp
  show ?thesis
  proof (cases "candidate vendor (Suc c) \<in> S")
    case True
    then have "{k. c < k \<and> candidate vendor k \<in> S} = insert (Suc c) ?B"
      by (auto simp: less_Suc_eq Suc_lessI intro: Suc_lessI)
    with fin notin True show ?thesis by simp
  next
    case False
    then have "{k. c < k \<and> candidate vendor k \<in> S} = ?B"
      by (auto intro: Suc_lessI)
    with False show ?thesis by simp
  qed
qed

lemma find_collides: "find (\<lambda>source. id_source source = i) srcs \<noteq> None \<longleftrightarrow> i \<in> id_source ` set srcs"
  by (auto simp: find_None_iff)

termination findUniqueSourceId_loop
proof (relation "measure (\<lambda>(vendor, srcs, i, count).
          2 * card {k. count < k \<and> candidate vendor k \<in> id_source ` set srcs}
          + (if i \<in> id_source ` set srcs then 1 else 0))")
  show "wf (measure (\<lambda>(vendor, srcs, i, count).
          2 * card {k. count < k \<and> candidate vendor k \<in> id_source ` set srcs}
          + (if i \<in> id_source ` set srcs then 1 else 0)))" by simp
next
  fix vendor :: string and otherSources :: "DModelSource list" and i :: string and count :: nat
  assume "find (\<lambda>source. id_source source = i) otherSources \<noteq> None"
  then have coll: "i \<in> id_source ` set otherSources" by (simp only: find_collides)
  have new: "vendor @ CHR ''-'' # string_of_nat (Suc count) = candidate vendor (Suc count)"
    by (simp add: candidate_def)
  have fin: "finite (id_source ` set otherSources)" by simp
  show "((vendor, otherSources, vendor @ ''-'' @ string_of_nat (count + 1), count + 1),
         (vendor, otherSources, i, count)) \<in> measure (\<lambda>(vendor, srcs, i, count).
          2 * card {k. count < k \<and> candidate vendor k \<in> id_source ` set srcs}
          + (if i \<in> id_source ` set srcs then 1 else 0))"
    using coll colliding_step[OF fin, of count vendor]
    by (simp add: new)
qed

lemma loop_result:
  assumes "i = candidate vendor count"
    and "\<forall>k<count. candidate vendor k \<in> id_source ` set srcs"
  shows "case findUniqueSourceId_loop vendor srcs i count of (r, c) \<Rightarrow>
           r = candidate vendor c \<and> r \<notin> id_source ` set srcs \<and>
           (\<forall>k<c. candidate vendor k \<in> id_source ` set srcs)"
  using assms
proof (induction vendor srcs i count rule: findUniqueSourceId_loop.induct)
  case (1 vendor otherSources i count)
  show ?case
  proof (cases "find (\<lambda>source. id_source source = i) otherSources \<noteq> None")
    case True
    then have coll: "i \<in> id_source ` set otherSources" by (simp only: find_collides)
    have next_id: "vendor @ ''-'' @ string_of_nat (count + 1) = candidate vendor (count + 1)"
      by (simp add: candidate_def)
    have below: "\<forall>k<count + 1. candidate vendor k \<in> id_source ` set otherSources"
      using "1.prems" coll by (auto simp: less_Suc_eq)
    from "1.IH"[OF True next_id below] True show ?thesis
      by (subst findUniqueSourceId_loop.simps) (simp del: findUniqueSourceId_loop.simps)
  next
    case False
    then have "i \<notin> id_source ` set otherSources"
      using find_collides[of i otherSources] by blast
    with False "1.prems" show ?thesis
      by (subst findUniqueSourceId_loop.simps) (simp del: findUniqueSourceId_loop.simps)
  qed
qed

lemma findUniqueSourceId_result:
  "case findUniqueSourceId vendor srcs of (r, c) \<Rightarrow>
           r = candidate vendor c \<and> r \<notin> id_source ` set srcs \<and>
           (\<forall>k<c. candidate vendor k \<in> id_source ` set srcs)"
  unfolding findUniqueSourceId_def
  by (rule loop_result) (simp_all add: candidate_def)

lemma collisions_bounded:
  assumes "\<forall>k<c. candidate vendor k \<in> id_source ` set srcs"
  shows "c \<le> length srcs"
proof -
  have "card {..<c} \<le> card (id_source ` set srcs)"
  proof (rule card_inj_on_le)
    show "inj_on (candidate vendor) {..<c}"
      using candidate_inj by (rule inj_on_subset) simp
    show "candidate vendor ` {..<c} \<subseteq> id_source ` set srcs" using assms by auto
    show "finite (id_source ` set srcs)" by simp
  qed
  also have "\<dots> \<le> card (set srcs)" by (rule card_image_le) simp
  also have "\<dots> \<le> length srcs" by (rule card_length)
  finally show ?thesis by simp
qed

section \<open>Properties of \<^verbatim>\<open>findUniqueSourceId\<close>\<close>

text \<open>
  Claim C2. \<^verbatim>\<open>findUniqueSourceId\<close> is a function of its two arguments alone. Whenever
  it returns the pair \<open>(i, count)\<close>: no source of the list has the id \<open>i\<close>; \<open>i\<close> is the
  vendor id when \<open>count\<close> is 0 and the vendor id followed by a dash and the decimal
  \<open>count\<close> otherwise; and every earlier candidate, numbers 0 up to \<open>count - 1\<close>, is the
  id of some source, so \<open>count\<close> is the number of collisions met on the way. With the
  single source \<^verbatim>\<open>openai\<close> and the vendor \<^verbatim>\<open>openai\<close> the result is
  \<^verbatim>\<open>{id: 'openai-1', count: 1}\<close>.
\<close>

theorem findUniqueSourceId_spec:
  assumes "findUniqueSourceId vendor existingSources = (i, count)"
  shows "(\<forall>s\<in>set existingSources. id_source s \<noteq> i) \<and>
         i = (if count = 0 then vendor else vendor @ ''-'' @ string_of_nat count) \<and>
         (\<forall>k<count. \<exists>s\<in>set existingSources. id_source s = candidate vendor k) \<and>
         findUniqueSourceId ''openai''
           [\<lparr> id_source = ''openai'', label_source = l, vendorId = v, setup_source = su \<rparr>]
           = (''openai-1'', 1)"
proof -
  from findUniqueSourceId_result[of vendor existingSources] assms
  have r: "i = candidate vendor count" "i \<notin> id_source ` set existingSources"
    "\<forall>k<count. candidate vendor k \<in> id_source ` set existingSources"
    by auto
  have one: "string_of_nat (Suc 0) = ''1''" by code_simp
  have ex: "findUniqueSourceId ''openai''
           [\<lparr> id_source = ''openai'', label_source = l, vendorId = v, setup_source = su \<rparr>]
           = (''openai-1'', 1)"
    by (simp add: findUniqueSourceId_def one)
  from r(2) have a: "\<forall>s\<in>set existingSources. id_source s \<noteq> i" by auto
  from r(1) have b: "i = (if count = 0 then vendor else vendor @ ''-'' @ string_of_nat count)"
    by (simp add: candidate_def)
  from r(3) have c: "\<forall>k<count. \<exists>s\<in>set existingSources. id_source s = candidate vendor k"
    by (metis imageE)
  from a b c ex show ?thesis by blast
qed

theorem findUniqueSourceId_spec_witness:
  "findUniqueSourceId ''openai'' [sample_source ''openai'' ''OpenAI''] = (''openai-1'', 1) \<and>
   ''openai-1'' \<notin> id_source ` set [sample_source ''openai'' ''OpenAI''] \<and>
   (\<exists>s\<in>set [sample_source ''openai'' ''OpenAI'']. id_source s = candidate ''openai'' 0)"
proof -
  have h: "findUniqueSourceId ''openai'' [sample_source ''openai'' ''OpenAI''] = (''openai-1'', 1)"
    by code_simp
  have one: "string_of_nat (Suc 0) = ''1''" by code_simp
  from findUniqueSourceId_spec[OF h] h show ?thesis
    by (simp add: sample_source_def candidate_def one)
qed

text \<open>
  Claim C9. The search returns on every input (the loop is a total function, its
  termination proved above), and it returns after at most \<open>length existingSources + 1\<close>
  tests of the loop condition: the candidates numbered 0 to \<open>count\<close> are tested, and
  \<open>count\<close> is at most the length of the list. The candidate returned collides with no
  source, and the candidates are pairwise distinct.
\<close>

theorem findUniqueSourceId_terminates:
  "snd (findUniqueSourceId vendor existingSources) \<le> length existingSources \<and>
   (\<forall>s\<in>set existingSources. id_source s \<noteq> fst (findUniqueSourceId vendor existingSources)) \<and>
   fst (findUniqueSourceId vendor existingSources)
     = candidate vendor (snd (findUniqueSourceId vendor existingSources)) \<and>
   (\<forall>j k. candidate vendor j = candidate vendor k \<longrightarrow> j = k)"
proof -
  obtain i c where eq: "findUniqueSourceId vendor existingSources = (i, c)"
    by (cases "findUniqueSourceId vendor existingSources")
  from findUniqueSourceId_result[of vendor existingSources] eq
  have r: "i = candidate vendor c" "i \<notin> id_source ` set existingSources"
    "\<forall>k<c. candidate vendor k \<in> id_source ` set existingSources"
    by auto
  from collisions_bounded[OF r(3)] have "c \<le> length existingSources" .
  moreover from r(2) have "\<forall>s\<in>set existingSources. id_source s \<noteq> i" by auto
  moreover have "\<forall>j k. candidate vendor j = candidate vendor k \<longrightarrow> j = k"
    using candidate_inj[of vendor] by (auto dest: injD)
  ultimately show ?thesis using r(1) eq by simp
qed

theorem findUniqueSourceId_terminates_witness:
  "snd (findUniqueSourceId ''openai'' [sample_source ''openai'' ''OpenAI'']) = 1 \<and>
   snd (findUniqueSourceId ''openai'' [sample_source ''openai'' ''OpenAI''])
     \<le> length [sample_source ''openai'' ''OpenAI''] \<and>
   fst (findUniqueSourceId ''openai'' [sample_source ''openai'' ''OpenAI''])
     \<notin> id_source ` set [sample_source ''openai'' ''OpenAI'']"
proof -
  have h: "findUniqueSourceId ''openai'' [sample_source ''openai'' ''OpenAI''] = (''openai-1'', 1)"
    by code_simp
  have one: "string_of_nat (Suc 0) = ''1''" by code_simp
  from findUniqueSourceId_terminates[of "''openai''" "[sample_source ''openai'' ''OpenAI'']"] h
  show ?thesis by (simp add: sample_source_def candidate_def one)
qed

section \<open>The store after each operation\<close>

lemma set_store_llms:
  "llms (set_store f state) = (case llms_new (f state) of None \<Rightarrow> llms state | Some l \<Rightarrow> l)"
  by (simp add: set_store_def Let_def)

lemma set_store_sources:
  "sources (set_store f state) = (case sources_new (f state) of None \<Rightarrow> sources state | Some l \<Rightarrow> l)"
  by (simp add: set_store_def Let_def)

lemma store_eqI: "llms a = llms b \<Longrightarrow> sources a = sources b \<Longrightarrow> a = (b :: ModelsStore)"
  by (cases a, cases b) simp

lemma find_uid_None: "find (\<lambda>m. uid m = u) models = None \<longleftrightarrow> u \<notin> uid ` set models"
  by (auto simp: find_None_iff)

lemma llms_addLLMs:
  "llms (addLLMs models state) = filter (\<lambda>x. uid x \<notin> uid ` set models) (llms state) @ models"
  by (simp add: addLLMs_def set_store_llms find_uid_None)

lemma sources_addLLMs: "sources (addLLMs models state) = sources state"
  by (simp add: addLLMs_def set_store_sources)

lemma llms_removeLLM: "llms (removeLLM u state) = filter (\<lambda>x. uid x \<noteq> u) (llms state)"
  by (simp add: removeLLM_def set_store_llms)

lemma sources_removeLLM: "sources (removeLLM u state) = sources state"
  by (simp add: removeLLM_def set_store_sources)

lemma llms_addSource: "llms (addSource source state) = llms state"
  by (simp add: addSource_def set_store_llms)

lemma sources_addSource: "sources (addSource source state) = sources state @ [source]"
  by (simp add: addSource_def set_store_sources)

lemma llms_removeSource:
  "llms (removeSource x state) = filter (\<lambda>m. sourceId_llm m \<noteq> x) (llms state)"
  by (simp add: removeSource_def set_store_llms)

lemma sources_removeSource:
  "sources (removeSource x state) = filter (\<lambda>s. id_source s \<noteq> x) (sources state)"
  by (simp add: removeSource_def set_store_sources)

lemma llms_updateSourceSetup: "llms (updateSourceSetup x p state) = llms state"
  by (simp add: updateSourceSetup_def set_store_llms)

lemma sources_updateSourceSetup:
  "sources (updateSourceSetup x p state) =
     map (\<lambda>source. if id_source source = x
            then source\<lparr> setup_source := Some (spread_setup (setup_source source) p) \<rparr>
            else source) (sources state)"
  by (simp add: updateSourceSetup_def set_store_sources)

lemma model_useJoinedLLMs: "map model (useJoinedLLMs state) = llms state"
  by (simp add: useJoinedLLMs_def Let_def comp_def)

lemma length_useJoinedLLMs: "length (useJoinedLLMs state) = length (llms state)"
  by (simp add: useJoinedLLMs_def)

lemma nth_useJoinedLLMs:
  "n < length (llms state) \<Longrightarrow>
   useJoinedLLMs state ! n =
     (case find (\<lambda>source. id_source source = sourceId_llm (llms state ! n)) (sources state) of
        None \<Rightarrow> \<lparr> model = llms state ! n, sourceLabel = ''Unknown'', vendorId_joined = None \<rparr>
      | Some s \<Rightarrow> \<lparr> model = llms state ! n, sourceLabel = label_source s,
                    vendorId_joined = Some (vendorId s) \<rparr>)"
  by (simp add: useJoinedLLMs_def Let_def split: option.split)

lemma spread_setup_lookup:
  "spread_setup old p k =
     (case p k of Some v \<Rightarrow> Some v
      | None \<Rightarrow> (case old of None \<Rightarrow> None | Some obj \<Rightarrow> obj k))"
  by (simp add: spread_setup_def map_add_def split: option.split)

lemma updateSourceSetup_absent:
  assumes "\<forall>s\<in>set (sources state). id_source s \<noteq> x"
  shows "updateSourceSetup x p state = state"
proof (rule store_eqI)
  show "llms (updateSourceSetup x p state) = llms state" by (rule llms_updateSourceSetup)
  from assms show "sources (updateSourceSetup x p state) = sources state"
    by (simp add: sources_updateSourceSetup map_idI)
qed

lemma nth_updateSourceSetup:
  "n < length (sources state) \<Longrightarrow>
   sources (updateSourceSetup x p state) ! n =
     (if id_source (sources state ! n) = x
      then (sources state ! n)\<lparr> setup_source := Some (spread_setup (setup_source (sources state ! n)) p) \<rparr>
      else sources state ! n)"
  by (simp add: sources_updateSourceSetup)

lemma removeLLM_absent:
  assumes "\<forall>m\<in>set (llms state). uid m \<noteq> u"
  shows "removeLLM u state = state"
proof (rule store_eqI)
  from assms show "llms (removeLLM u state) = llms state"
    by (simp add: llms_removeLLM filter_id_conv)
  show "sources (removeLLM u state) = sources state" by (rule sources_removeLLM)
qed

lemma removeSource_absent:
  assumes "\<forall>s\<in>set (sources state). id_source s \<noteq> x"
    and "\<forall>m\<in>set (llms state). sourceId_llm m \<noteq> x"
  shows "removeSource x state = state"
proof (rule store_eqI)
  from assms(2) show "llms (removeSource x state) = llms state"
    by (simp add: llms_removeSource filter_id_conv)
  from assms(1) show "sources (removeSource x state) = sources state"
    by (simp add: sources_removeSource filter_id_conv)
qed

section \<open>Uniqueness of uids under batches without duplicates\<close>

lemma distinct_uid_addLLMs:
  assumes "distinct (map uid (llms state))" and "distinct (map uid models)"
  shows "distinct (map uid (llms (addLLMs models state)))"
  using assms by (auto simp: llms_addLLMs distinct_map_filter)

lemma distinct_uid_call:
  assumes "distinct (map uid (llms state))"
    and "case c of AddLLMs models \<Rightarrow> distinct (map uid models) | _ \<Rightarrow> True"
  shows "distinct (map uid (llms (apply_call c state)))"
  using assms
  by (cases c)
    (simp_all add: distinct_uid_addLLMs llms_removeLLM llms_addSource llms_removeSource
      llms_updateSourceSetup distinct_map_filter)

lemma distinct_uid_fold:
  assumes "distinct (map uid (llms state))"
    and "\<forall>c\<in>set calls. (case c of AddLLMs models \<Rightarrow> distinct (map uid models) | _ \<Rightarrow> True)"
  shows "distinct (map uid (llms (fold apply_call calls state)))"
  using assms
proof (induction calls arbitrary: state)
  case Nil
  then show ?case by simp
next
  case (Cons c calls)
  from Cons.prems have "distinct (map uid (llms (apply_call c state)))"
    by (intro distinct_uid_call) simp_all
  with Cons.prems Cons.IH[of "apply_call c state"] show ?case by simp
qed

lemma distinct_uid_run_calls:
  "(\<forall>c\<in>set calls. (case c of AddLLMs models \<Rightarrow> distinct (map uid models) | _ \<Rightarrow> True)) \<Longrightarrow>
   distinct (map uid (llms (run_calls calls)))"
  unfolding run_calls_def by (rule distinct_uid_fold) (simp_all add: initial_store_def)

section \<open>Properties of the registry\<close>

text \<open>
  Claim C1. For every state and every source id \<open>x\<close>, \<^verbatim>\<open>removeSource(x)\<close> is one
  update of the store that replaces both collections together: the new \<open>sources\<close> are
  the old ones without those whose id is \<open>x\<close>, the new \<open>llms\<close> are the old ones without
  those whose \<^verbatim>\<open>_sourceId\<close> is \<open>x\<close>. So the resulting state has no source with id
  \<open>x\<close> and no model with \<^verbatim>\<open>_sourceId\<close> \<open>x\<close>, and the joined view of the resulting
  state has no tuple whose model has \<^verbatim>\<open>_sourceId\<close> \<open>x\<close>.
\<close>

theorem removeSource_cascade:
  "removeSource x state =
     \<lparr> llms = filter (\<lambda>m. sourceId_llm m \<noteq> x) (llms state),
       sources = filter (\<lambda>s. id_source s \<noteq> x) (sources state) \<rparr> \<and>
   (\<forall>s\<in>set (sources (removeSource x state)). id_source s \<noteq> x) \<and>
   (\<forall>m\<in>set (llms (removeSource x state)). sourceId_llm m \<noteq> x) \<and>
   (\<forall>j\<in>set (useJoinedLLMs (removeSource x state)). sourceId_llm (model j) \<noteq> x)"
proof -
  have j: "\<forall>j\<in>set (useJoinedLLMs (removeSource x state)). sourceId_llm (model j) \<noteq> x"
  proof
    fix j assume "j \<in> set (useJoinedLLMs (removeSource x state))"
    then have "model j \<in> set (map model (useJoinedLLMs (removeSource x state)))" by simp
    then have "model j \<in> set (llms (removeSource x state))"
      by (simp only: model_useJoinedLLMs)
    then show "sourceId_llm (model j) \<noteq> x" by (simp add: llms_removeSource)
  qed
  have "removeSource x state =
     \<lparr> llms = filter (\<lambda>m. sourceId_llm m \<noteq> x) (llms state),
       sources = filter (\<lambda>s. id_source s \<noteq> x) (sources state) \<rparr>"
    by (rule store_eqI) (simp_all add: llms_removeSource sources_removeSource)
  moreover have "\<forall>s\<in>set (sources (removeSource x state)). id_source s \<noteq> x"
    by (simp add: sources_removeSource)
  moreover have "\<forall>m\<in>set (llms (removeSource x state)). sourceId_llm m \<noteq> x"
    by (simp add: llms_removeSource)
  ultimately show ?thesis using j by blast
qed

theorem removeSource_cascade_witness:
  "sources (removeSource ''s1''
      \<lparr> llms = [sample_llm ''m1'' ''s1'' ''A'', sample_llm ''m2'' ''s2'' ''B''],
        sources = [sample_source ''s1'' ''One'', sample_source ''s2'' ''Two''] \<rparr>)
     = [sample_source ''s2'' ''Two''] \<and>
   llms (removeSource ''s1''
      \<lparr> llms = [sample_llm ''m1'' ''s1'' ''A'', sample_llm ''m2'' ''s2'' ''B''],
        sources = [sample_source ''s1'' ''One'', sample_source ''s2'' ''Two''] \<rparr>)
     = [sample_llm ''m2'' ''s2'' ''B''] \<and>
   map (\<lambda>j. sourceId_llm (model j)) (useJoinedLLMs (removeSource ''s1''
      \<lparr> llms = [sample_llm ''m1'' ''s1'' ''A'', sample_llm ''m2'' ''s2'' ''B''],
        sources = [sample_source ''s1'' ''One'', sample_source ''s2'' ''Two''] \<rparr>))
     = [''s2'']"
  using removeSource_cascade[of "''s1''"
      "\<lparr> llms = [sample_llm ''m1'' ''s1'' ''A'', sample_llm ''m2'' ''s2'' ''B''],
        sources = [sample_source ''s1'' ''One'', sample_source ''s2'' ''Two''] \<rparr>"]
  by (simp add: useJoinedLLMs_def sample_llm_def sample_source_def)

text \<open>
  Claim C3. For every state and every incoming list, \<^verbatim>\<open>addLLMs\<close> removes the existing
  models whose uid is the uid of an incoming model, keeps the others in their order and
  appends the incoming list at the end. Adding \<open>[m1]\<close> and then \<open>[m2]\<close>, two models of
  the same uid, leaves exactly one model of that uid: \<open>m2\<close>, with the label of the second
  call, at the end of the list.
\<close>

theorem addLLMs_replaces:
  "llms (addLLMs models state)
     = filter (\<lambda>x. uid x \<notin> uid ` set models) (llms state) @ models \<and>
   (uid m1 = uid m2 \<longrightarrow>
      filter (\<lambda>x. uid x = uid m2) (llms (addLLMs [m2] (addLLMs [m1] state))) = [m2] \<and>
      llms (addLLMs [m2] (addLLMs [m1] state))
        = filter (\<lambda>x. uid x \<noteq> uid m2) (llms state) @ [m2])"
proof -
  have "llms (addLLMs [m2] (addLLMs [m1] state))
        = filter (\<lambda>x. uid x \<noteq> uid m2) (llms state) @ [m2]" if "uid m1 = uid m2"
    using that by (simp add: llms_addLLMs)
  moreover have "filter (\<lambda>x. uid x = uid m2) (filter (\<lambda>x. uid x \<noteq> uid m2) (llms state) @ [m2]) = [m2]"
    by (simp add: filter_empty_conv)
  ultimately show ?thesis by (simp add: llms_addLLMs)
qed

theorem addLLMs_replaces_witness:
  "llms (addLLMs [sample_llm ''gpt-4'' ''s1'' ''new'']
          (addLLMs [sample_llm ''gpt-4'' ''s1'' ''old'']
             \<lparr> llms = [sample_llm ''gpt-3'' ''s1'' ''three''], sources = [] \<rparr>))
     = [sample_llm ''gpt-3'' ''s1'' ''three'', sample_llm ''gpt-4'' ''s1'' ''new''] \<and>
   map label (filter (\<lambda>x. uid x = ''gpt-4'')
     (llms (addLLMs [sample_llm ''gpt-4'' ''s1'' ''new'']
          (addLLMs [sample_llm ''gpt-4'' ''s1'' ''old'']
             \<lparr> llms = [sample_llm ''gpt-3'' ''s1'' ''three''], sources = [] \<rparr>))))
     = [''new'']"
  using addLLMs_replaces[of "[sample_llm ''gpt-4'' ''s1'' ''old'']"
      "\<lparr> llms = [sample_llm ''gpt-3'' ''s1'' ''three''], sources = [] \<rparr>"
      "sample_llm ''gpt-4'' ''s1'' ''old''" "sample_llm ''gpt-4'' ''s1'' ''new''"]
  by (simp add: sample_llm_def)

text \<open>
  Claim C4. In every state, \<^verbatim>\<open>updateSourceSetup(x, p)\<close> replaces the setup of each
  source whose id is \<open>x\<close> by the one-level overlay of \<open>p\<close> on the existing setup and
  leaves its other fields: a property of the result is the one of \<open>p\<close> when \<open>p\<close> has it,
  and the one of the old setup otherwise. Updating with \<^verbatim>\<open>{a:1}\<close> and then with
  \<^verbatim>\<open>{b:2}\<close> gives the old setup with \<open>a\<close> set to 1 and \<open>b\<close> set to 2, which is
  \<^verbatim>\<open>{a:1, b:2}\<close> on a source that had no setup. The overlay is shallow: a nested
  object of the old setup is replaced whole by the one of \<open>p\<close>, not merged with it. When
  no source has the id \<open>x\<close> the state is unchanged.
\<close>

theorem updateSourceSetup_shallow_merge:
  "(\<forall>n<length (sources state). id_source (sources state ! n) = x \<longrightarrow>
      sources (updateSourceSetup x p state) ! n
        = (sources state ! n)\<lparr> setup_source :=
             Some (spread_setup (setup_source (sources state ! n)) p) \<rparr>) \<and>
   (\<forall>k. spread_setup old p k =
      (case p k of Some v \<Rightarrow> Some v
       | None \<Rightarrow> (case old of None \<Rightarrow> None | Some obj \<Rightarrow> obj k))) \<and>
   (\<forall>n<length (sources state). id_source (sources state ! n) = x \<longrightarrow>
      setup_source (sources (updateSourceSetup x [''b'' \<mapsto> JNum 2]
                      (updateSourceSetup x [''a'' \<mapsto> JNum 1] state)) ! n)
        = Some ((case setup_source (sources state ! n) of None \<Rightarrow> Map.empty | Some obj \<Rightarrow> obj)
                  (''a'' \<mapsto> JNum 1, ''b'' \<mapsto> JNum 2))) \<and>
   spread_setup (Some [''o'' \<mapsto> JObj [''x'' \<mapsto> JNum 1]]) [''o'' \<mapsto> JObj [''y'' \<mapsto> JNum 2]]
     = [''o'' \<mapsto> JObj [''y'' \<mapsto> JNum 2]] \<and>
   ((\<forall>s\<in>set (sources state). id_source s \<noteq> x) \<longrightarrow> updateSourceSetup x p state = state)"
proof -
  have one: "\<forall>n<length (sources state). id_source (sources state ! n) = x \<longrightarrow>
      sources (updateSourceSetup x p state) ! n
        = (sources state ! n)\<lparr> setup_source :=
             Some (spread_setup (setup_source (sources state ! n)) p) \<rparr>"
    by (simp add: nth_updateSourceSetup)
  have two: "\<forall>k. spread_setup old p k =
      (case p k of Some v \<Rightarrow> Some v
       | None \<Rightarrow> (case old of None \<Rightarrow> None | Some obj \<Rightarrow> obj k))"
    by (simp add: spread_setup_lookup)
  have three: "\<forall>n<length (sources state). id_source (sources state ! n) = x \<longrightarrow>
      setup_source (sources (updateSourceSetup x [''b'' \<mapsto> JNum 2]
                      (updateSourceSetup x [''a'' \<mapsto> JNum 1] state)) ! n)
        = Some ((case setup_source (sources state ! n) of None \<Rightarrow> Map.empty | Some obj \<Rightarrow> obj)
                  (''a'' \<mapsto> JNum 1, ''b'' \<mapsto> JNum 2))"
    by (simp add: sources_updateSourceSetup spread_setup_def split: option.split)
  have four: "spread_setup (Some [''o'' \<mapsto> JObj [''x'' \<mapsto> JNum 1]]) [''o'' \<mapsto> JObj [''y'' \<mapsto> JNum 2]]
     = [''o'' \<mapsto> JObj [''y'' \<mapsto> JNum 2]]"
    by (simp add: spread_setup_def)
  have five: "(\<forall>s\<in>set (sources state). id_source s \<noteq> x) \<longrightarrow> updateSourceSetup x p state = state"
    by (simp add: updateSourceSetup_absent)
  from one two three four five show ?thesis by blast
qed

theorem updateSourceSetup_shallow_merge_witness:
  "setup_source (sources (updateSourceSetup ''s1'' [''b'' \<mapsto> JNum 2]
      (updateSourceSetup ''s1'' [''a'' \<mapsto> JNum 1]
         \<lparr> llms = [], sources = [sample_source ''s1'' ''One''] \<rparr>)) ! 0)
     = Some [''a'' \<mapsto> JNum 1, ''b'' \<mapsto> JNum 2] \<and>
   updateSourceSetup ''s2'' [''a'' \<mapsto> JNum 1] \<lparr> llms = [], sources = [sample_source ''s1'' ''One''] \<rparr>
     = \<lparr> llms = [], sources = [sample_source ''s1'' ''One''] \<rparr>"
  using updateSourceSetup_shallow_merge[of "\<lparr> llms = [], sources = [sample_source ''s1'' ''One''] \<rparr>"
          "''s1''" "[''a'' \<mapsto> JNum 1]" None]
        updateSourceSetup_shallow_merge[of "\<lparr> llms = [], sources = [sample_source ''s1'' ''One''] \<rparr>"
          "''s2''" "[''a'' \<mapsto> JNum 1]" None]
  by (simp add: sample_source_def)

text \<open>
  Claim C5. The joined view has exactly one tuple for every model of \<open>llms\<close>, in the
  same order, holding that model. Its label and vendor id come from the lookup of the
  model's \<^verbatim>\<open>_sourceId\<close> in the \<open>sources\<close> of the state the view is computed from: the
  label and the vendor id of the source with that id (the first one in the list) when
  there is one, and \<^verbatim>\<open>'Unknown'\<close> and \<^verbatim>\<open>null\<close> when there is none.
\<close>

theorem useJoinedLLMs_join:
  "map model (useJoinedLLMs state) = llms state \<and>
   length (useJoinedLLMs state) = length (llms state) \<and>
   (\<forall>n<length (llms state).
      model (useJoinedLLMs state ! n) = llms state ! n \<and>
      (case find (\<lambda>source. id_source source = sourceId_llm (llms state ! n)) (sources state) of
         None \<Rightarrow> sourceLabel (useJoinedLLMs state ! n) = ''Unknown'' \<and>
                 vendorId_joined (useJoinedLLMs state ! n) = None
       | Some s \<Rightarrow> sourceLabel (useJoinedLLMs state ! n) = label_source s \<and>
                   vendorId_joined (useJoinedLLMs state ! n) = Some (vendorId s)) \<and>
      ((\<forall>s\<in>set (sources state). id_source s \<noteq> sourceId_llm (llms state ! n)) \<longrightarrow>
         sourceLabel (useJoinedLLMs state ! n) = ''Unknown'' \<and>
         vendorId_joined (useJoinedLLMs state ! n) = None) \<and>
      ((\<exists>s\<in>set (sources state). id_source s = sourceId_llm (llms state ! n)) \<longrightarrow>
         (\<exists>s\<in>set (sources state). id_source s = sourceId_llm (llms state ! n) \<and>
             sourceLabel (useJoinedLLMs state ! n) = label_source s \<and>
             vendorId_joined (useJoinedLLMs state ! n) = Some (vendorId s))))"
proof -
  have per: "model (useJoinedLLMs state ! n) = llms state ! n \<and>
      (case find (\<lambda>source. id_source source = sourceId_llm (llms state ! n)) (sources state) of
         None \<Rightarrow> sourceLabel (useJoinedLLMs state ! n) = ''Unknown'' \<and>
                 vendorId_joined (useJoinedLLMs state ! n) = None
       | Some s \<Rightarrow> sourceLabel (useJoinedLLMs state ! n) = label_source s \<and>
                   vendorId_joined (useJoinedLLMs state ! n) = Some (vendorId s)) \<and>
      ((\<forall>s\<in>set (sources state). id_source s \<noteq> sourceId_llm (llms state ! n)) \<longrightarrow>
         sourceLabel (useJoinedLLMs state ! n) = ''Unknown'' \<and>
         vendorId_joined (useJoinedLLMs state ! n) = None) \<and>
      ((\<exists>s\<in>set (sources state). id_source s = sourceId_llm (llms state ! n)) \<longrightarrow>
         (\<exists>s\<in>set (sources state). id_source s = sourceId_llm (llms state ! n) \<and>
             sourceLabel (useJoinedLLMs state ! n) = label_source s \<and>
             vendorId_joined (useJoinedLLMs state ! n) = Some (vendorId s)))"
    if n: "n < length (llms state)" for n
  proof (cases "find (\<lambda>source. id_source source = sourceId_llm (llms state ! n)) (sources state)")
    case None
    then have no: "\<forall>s\<in>set (sources state). id_source s \<noteq> sourceId_llm (llms state ! n)"
      by (simp add: find_None_iff)
    from None no n show ?thesis by (simp add: nth_useJoinedLLMs)
  next
    case (Some s)
    then have s: "s \<in> set (sources state)" "id_source s = sourceId_llm (llms state ! n)"
      by (auto simp: find_Some_iff)
    from Some s n show ?thesis by (auto simp: nth_useJoinedLLMs)
  qed
  with model_useJoinedLLMs[of state] length_useJoinedLLMs[of state] show ?thesis by blast
qed

theorem useJoinedLLMs_join_witness:
  "map sourceLabel (useJoinedLLMs
      \<lparr> llms = [sample_llm ''m1'' ''s1'' ''A'', sample_llm ''m2'' ''gone'' ''B''],
        sources = [sample_source ''s1'' ''One''] \<rparr>) = [''One'', ''Unknown''] \<and>
   map vendorId_joined (useJoinedLLMs
      \<lparr> llms = [sample_llm ''m1'' ''s1'' ''A'', sample_llm ''m2'' ''gone'' ''B''],
        sources = [sample_source ''s1'' ''One''] \<rparr>) = [Some ''openai'', None] \<and>
   map model (useJoinedLLMs
      \<lparr> llms = [sample_llm ''m1'' ''s1'' ''A'', sample_llm ''m2'' ''gone'' ''B''],
        sources = [sample_source ''s1'' ''One''] \<rparr>)
     = [sample_llm ''m1'' ''s1'' ''A'', sample_llm ''m2'' ''gone'' ''B'']"
  using useJoinedLLMs_join[of
      "\<lparr> llms = [sample_llm ''m1'' ''s1'' ''A'', sample_llm ''m2'' ''gone'' ''B''],
        sources = [sample_source ''s1'' ''One''] \<rparr>"]
  by (simp add: useJoinedLLMs_def sample_llm_def sample_source_def)

text \<open>
  Claim C6 says that a mutation given an id that matches no record is a silent no-op.
  \<^verbatim>\<open>removeSource\<close> is not: after \<^verbatim>\<open>addSource\<close> of the source \<^verbatim>\<open>s1\<close> and
  \<^verbatim>\<open>addLLMs\<close> of a model whose \<^verbatim>\<open>_sourceId\<close> is \<^verbatim>\<open>gone\<close>, no source has the id
  \<^verbatim>\<open>gone\<close>, and \<^verbatim>\<open>removeSource('gone')\<close> still removes the model.
\<close>

theorem removeSource_missing_not_noop:
  "''gone'' \<notin> id_source ` set (sources (run_calls
       [AddSource (sample_source ''s1'' ''One''), AddLLMs [sample_llm ''m1'' ''gone'' ''A'']])) \<and>
   llms (run_calls
       [AddSource (sample_source ''s1'' ''One''), AddLLMs [sample_llm ''m1'' ''gone'' ''A'']])
     = [sample_llm ''m1'' ''gone'' ''A''] \<and>
   llms (removeSource ''gone'' (run_calls
       [AddSource (sample_source ''s1'' ''One''), AddLLMs [sample_llm ''m1'' ''gone'' ''A'']]))
     = [] \<and>
   removeSource ''gone'' (run_calls
       [AddSource (sample_source ''s1'' ''One''), AddLLMs [sample_llm ''m1'' ''gone'' ''A'']])
     \<noteq> run_calls
       [AddSource (sample_source ''s1'' ''One''), AddLLMs [sample_llm ''m1'' ''gone'' ''A'']]"
proof -
  let ?st = "run_calls
       [AddSource (sample_source ''s1'' ''One''), AddLLMs [sample_llm ''m1'' ''gone'' ''A'']]"
  have l: "llms ?st = [sample_llm ''m1'' ''gone'' ''A'']"
    by (simp add: run_calls_def initial_store_def llms_addLLMs llms_addSource)
  have s: "sources ?st = [sample_source ''s1'' ''One'']"
    by (simp add: run_calls_def initial_store_def sources_addLLMs sources_addSource)
  have r: "llms (removeSource ''gone'' ?st) = []"
    unfolding llms_removeSource l by (simp add: sample_llm_def)
  have "removeSource ''gone'' ?st \<noteq> ?st"
  proof
    assume "removeSource ''gone'' ?st = ?st"
    then have "llms (removeSource ''gone'' ?st) = llms ?st" by simp
    with l r show False by simp
  qed
  moreover have "''gone'' \<notin> id_source ` set (sources ?st)"
    unfolding s by (simp add: sample_source_def)
  ultimately show ?thesis using l r by simp
qed

text \<open>
  Claim C6, amended. Every operation of the registry is a total function of the state:
  the source has no \<^verbatim>\<open>throw\<close>, and an id that may be absent is only looked up by
  \<^verbatim>\<open>filter\<close>, \<^verbatim>\<open>map\<close> and \<^verbatim>\<open>find\<close> with \<^verbatim>\<open>?.\<close> and \<^verbatim>\<open>??\<close>, which return
  for every argument. \<^verbatim>\<open>removeLLM\<close> with a uid of no model and
  \<^verbatim>\<open>updateSourceSetup\<close> with an id of no source leave the state unchanged.
  \<^verbatim>\<open>removeSource\<close> with an id of no source leaves the sources unchanged and removes
  exactly the models whose \<^verbatim>\<open>_sourceId\<close> is that id; it leaves the state unchanged
  when no model refers to the id either. The joined view has one tuple per model and
  gives \<^verbatim>\<open>'Unknown'\<close> and \<^verbatim>\<open>null\<close> for a model whose \<^verbatim>\<open>_sourceId\<close> is the id of
  no source.
\<close>

theorem missing_id_behaviour:
  "((\<forall>m\<in>set (llms state). uid m \<noteq> u) \<longrightarrow> removeLLM u state = state) \<and>
   ((\<forall>s\<in>set (sources state). id_source s \<noteq> x) \<longrightarrow>
      updateSourceSetup x p state = state \<and>
      sources (removeSource x state) = sources state \<and>
      llms (removeSource x state) = filter (\<lambda>m. sourceId_llm m \<noteq> x) (llms state)) \<and>
   ((\<forall>s\<in>set (sources state). id_source s \<noteq> x) \<and>
    (\<forall>m\<in>set (llms state). sourceId_llm m \<noteq> x) \<longrightarrow> removeSource x state = state) \<and>
   length (useJoinedLLMs state) = length (llms state) \<and>
   (\<forall>n<length (llms state).
      (\<forall>s\<in>set (sources state). id_source s \<noteq> sourceId_llm (llms state ! n)) \<longrightarrow>
      sourceLabel (useJoinedLLMs state ! n) = ''Unknown'' \<and>
      vendorId_joined (useJoinedLLMs state ! n) = None)"
proof -
  have a: "(\<forall>m\<in>set (llms state). uid m \<noteq> u) \<longrightarrow> removeLLM u state = state"
    by (simp add: removeLLM_absent)
  have b: "(\<forall>s\<in>set (sources state). id_source s \<noteq> x) \<longrightarrow>
      updateSourceSetup x p state = state \<and>
      sources (removeSource x state) = sources state \<and>
      llms (removeSource x state) = filter (\<lambda>m. sourceId_llm m \<noteq> x) (llms state)"
    by (simp add: updateSourceSetup_absent sources_removeSource llms_removeSource filter_id_conv)
  have c: "(\<forall>s\<in>set (sources state). id_source s \<noteq> x) \<and>
    (\<forall>m\<in>set (llms state). sourceId_llm m \<noteq> x) \<longrightarrow> removeSource x state = state"
    by (simp add: removeSource_absent)
  have d: "\<forall>n<length (llms state).
      (\<forall>s\<in>set (sources state). id_source s \<noteq> sourceId_llm (llms state ! n)) \<longrightarrow>
      sourceLabel (useJoinedLLMs state ! n) = ''Unknown'' \<and>
      vendorId_joined (useJoinedLLMs state ! n) = None"
  proof (intro allI impI)
    fix n
    assume n: "n < length (llms state)"
      and no: "\<forall>s\<in>set (sources state). id_source s \<noteq> sourceId_llm (llms state ! n)"
    from no have "find (\<lambda>source. id_source source = sourceId_llm (llms state ! n)) (sources state) = None"
      by (simp add: find_None_iff)
    with n show "sourceLabel (useJoinedLLMs state ! n) = ''Unknown'' \<and>
      vendorId_joined (useJoinedLLMs state ! n) = None"
      by (simp add: nth_useJoinedLLMs)
  qed
  from a b c d length_useJoinedLLMs[of state] show ?thesis by blast
qed

theorem missing_id_behaviour_witness:
  "removeLLM ''nope'' \<lparr> llms = [sample_llm ''m1'' ''gone'' ''A''], sources = [sample_source ''s1'' ''One''] \<rparr>
     = \<lparr> llms = [sample_llm ''m1'' ''gone'' ''A''], sources = [sample_source ''s1'' ''One''] \<rparr> \<and>
   updateSourceSetup ''gone'' [''a'' \<mapsto> JNum 1]
       \<lparr> llms = [sample_llm ''m1'' ''gone'' ''A''], sources = [sample_source ''s1'' ''One''] \<rparr>
     = \<lparr> llms = [sample_llm ''m1'' ''gone'' ''A''], sources = [sample_source ''s1'' ''One''] \<rparr> \<and>
   removeSource ''gone'' \<lparr> llms = [sample_llm ''m1'' ''gone'' ''A''], sources = [sample_source ''s1'' ''One''] \<rparr>
     = \<lparr> llms = [], sources = [sample_source ''s1'' ''One''] \<rparr> \<and>
   removeSource ''s2'' \<lparr> llms = [sample_llm ''m1'' ''gone'' ''A''], sources = [sample_source ''s1'' ''One''] \<rparr>
     = \<lparr> llms = [sample_llm ''m1'' ''gone'' ''A''], sources = [sample_source ''s1'' ''One''] \<rparr> \<and>
   sourceLabel (useJoinedLLMs
       \<lparr> llms = [sample_llm ''m1'' ''gone'' ''A''], sources = [sample_source ''s1'' ''One''] \<rparr> ! 0)
     = ''Unknown''"
proof -
  let ?st = "\<lparr> llms = [sample_llm ''m1'' ''gone'' ''A''], sources = [sample_source ''s1'' ''One''] \<rparr>"
  have eq: "removeSource ''gone'' ?st = \<lparr> llms = [], sources = [sample_source ''s1'' ''One''] \<rparr>"
    using missing_id_behaviour[of ?st "''nope''" "''gone''" "[''a'' \<mapsto> JNum 1]"]
    by (intro store_eqI) (simp_all add: sample_source_def sample_llm_def)
  from missing_id_behaviour[of ?st "''nope''" "''gone''" "[''a'' \<mapsto> JNum 1]"]
       missing_id_behaviour[of ?st "''nope''" "''s2''" "[''a'' \<mapsto> JNum 1]"] eq
  show ?thesis by (simp add: sample_source_def sample_llm_def)
qed

text \<open>
  Claim C7 says that in every state reached from the empty store by calls of the five
  mutations no two models have the same uid. The lemmas above show that this holds as
  long as every list given to \<^verbatim>\<open>addLLMs\<close> has pairwise distinct uids. \<^verbatim>\<open>addLLMs\<close>
  removes the stored models of an incoming uid but does not compare the incoming models
  with each other: one call with two models of uid \<^verbatim>\<open>gpt-4\<close> on the empty store
  leaves both in \<open>llms\<close>.
\<close>

theorem addLLMs_duplicate_batch:
  "llms (run_calls [AddLLMs [sample_llm ''gpt-4'' ''s1'' ''A'', sample_llm ''gpt-4'' ''s1'' ''B'']])
     = [sample_llm ''gpt-4'' ''s1'' ''A'', sample_llm ''gpt-4'' ''s1'' ''B''] \<and>
   map uid (llms (run_calls
       [AddLLMs [sample_llm ''gpt-4'' ''s1'' ''A'', sample_llm ''gpt-4'' ''s1'' ''B'']]))
     = [''gpt-4'', ''gpt-4''] \<and>
   \<not> distinct (map uid (llms (run_calls
       [AddLLMs [sample_llm ''gpt-4'' ''s1'' ''A'', sample_llm ''gpt-4'' ''s1'' ''B'']])))"
proof -
  have "llms (run_calls [AddLLMs [sample_llm ''gpt-4'' ''s1'' ''A'', sample_llm ''gpt-4'' ''s1'' ''B'']])
     = [sample_llm ''gpt-4'' ''s1'' ''A'', sample_llm ''gpt-4'' ''s1'' ''B'']"
    by (simp add: run_calls_def initial_store_def llms_addLLMs)
  then show ?thesis by (simp add: sample_llm_def)
qed

text \<open>
  Claim C10. In every state, \<^verbatim>\<open>addLLMs\<close> and \<^verbatim>\<open>removeLLM\<close> leave \<open>sources\<close> as it
  is, \<^verbatim>\<open>addSource\<close> leaves \<open>llms\<close> as it is, and \<^verbatim>\<open>updateSourceSetup\<close> leaves
  \<open>llms\<close> as it is, keeps the number and order of the sources and leaves every source
  whose id differs from the given one unchanged in every field.
\<close>

theorem mutations_frame:
  "sources (addLLMs models state) = sources state \<and>
   sources (removeLLM u state) = sources state \<and>
   llms (addSource source state) = llms state \<and>
   llms (updateSourceSetup x p state) = llms state \<and>
   length (sources (updateSourceSetup x p state)) = length (sources state) \<and>
   (\<forall>n<length (sources state). id_source (sources state ! n) \<noteq> x \<longrightarrow>
      sources (updateSourceSetup x p state) ! n = sources state ! n)"
  by (simp add: sources_addLLMs sources_removeLLM llms_addSource llms_updateSourceSetup
      sources_updateSourceSetup)

theorem mutations_frame_witness:
  "sources (updateSourceSetup ''s1'' [''a'' \<mapsto> JNum 1]
      \<lparr> llms = [sample_llm ''m1'' ''s1'' ''A''],
        sources = [sample_source ''s1'' ''One'', sample_source ''s2'' ''Two''] \<rparr>) ! 1
     = sample_source ''s2'' ''Two'' \<and>
   llms (updateSourceSetup ''s1'' [''a'' \<mapsto> JNum 1]
      \<lparr> llms = [sample_llm ''m1'' ''s1'' ''A''],
        sources = [sample_source ''s1'' ''One'', sample_source ''s2'' ''Two''] \<rparr>)
     = [sample_llm ''m1'' ''s1'' ''A''] \<and>
   sources (addLLMs [sample_llm ''m2'' ''s2'' ''B'']
      \<lparr> llms = [sample_llm ''m1'' ''s1'' ''A''],
        sources = [sample_source ''s1'' ''One'', sample_source ''s2'' ''Two''] \<rparr>)
     = [sample_source ''s1'' ''One'', sample_source ''s2'' ''Two'']"
  using mutations_frame[of "[sample_llm ''m2'' ''s2'' ''B'']"
      "\<lparr> llms = [sample_llm ''m1'' ''s1'' ''A''],
        sources = [sample_source ''s1'' ''One'', sample_source ''s2'' ''Two''] \<rparr>"
      "''m1''" "sample_source ''s3'' ''Three''" "''s1''" "[''a'' \<mapsto> JNum 1]"]
  by (simp add: sample_source_def)

section \<open>Properties of the persona catalog\<close>

text \<open>
  Claim C8 says that \<^verbatim>\<open>SystemPurposes\<close> has a record for every identifier of
  \<^verbatim>\<open>SystemPurposeId\<close> and that the default identifier \<^verbatim>\<open>Generic\<close> is one of them.
  The table's keys are those of the enumeration except that it has \<^verbatim>\<open>Artist\<close>, which
  is no identifier of the enumeration, and has no \<^verbatim>\<open>Designer\<close>: the lookup of
  \<^verbatim>\<open>Designer\<close> finds nothing. The seven other identifiers, the default among them,
  have their records.
\<close>

theorem SystemPurposes_entries:
  "map (\<lambda>p. map_option title (lookup_purpose p))
     [Catalyst, Custom, Designer, Developer, DeveloperPreview, Executive, Generic, Scientist]
     = [Some ''Catalyst'', Some ''Custom'', None, Some ''Dev'', Some ''Developer'',
        Some ''Executive'', Some ''Default'', Some ''Scientist''] \<and>
   lookup_purpose Designer = None \<and>
   map_option title (map_of SystemPurposes ''Artist'') = Some ''Artist'' \<and>
   map fst SystemPurposes
     = [''DeveloperPreview'', ''Developer'', ''Scientist'', ''Catalyst'', ''Executive'',
        ''Artist'', ''Generic'', ''Custom''] \<and>
   defaultSystemPurposeId = Generic \<and>
   map_option title (lookup_purpose defaultSystemPurposeId) = Some ''Default''"
  by (simp add: lookup_purpose_def SystemPurposes_def defaultSystemPurposeId_def)

end
